theory Spec2Isabelle
  imports Main "HOL-Library.Sublist"
begin

section \<open>The inventory example: a table in a database file\<close>

text \<open>
  The script \<^verbatim>\<open>sqlite_example.py\<close> keeps one table, \<^verbatim>\<open>products\<close>, in the file
  \<^verbatim>\<open>inventory.db\<close>. It drives the database library with five statements: a
  \<^verbatim>\<open>DROP TABLE\<close>, a \<^verbatim>\<open>CREATE TABLE IF NOT EXISTS\<close>, a batched \<^verbatim>\<open>INSERT\<close>, and two
  \<^verbatim>\<open>SELECT\<close>s. The model below gives each of these statements the meaning the
  database engine gives it, on a store that is either without the table or holds its rows
  in insertion order, and threads the process state (the file, the global list
  \<^verbatim>\<open>plist\<close>, standard output) through \<^verbatim>\<open>load_db\<close>, \<^verbatim>\<open>run_query\<close> and \<^verbatim>\<open>main\<close>.
\<close>

subsection \<open>Values, rows and the store\<close>

text \<open>
  A stored value is \<^verbatim>\<open>NULL\<close>, an integer or a text; the script writes nothing else.
  A row has the three columns of the schema, \<^verbatim>\<open>productID TEXT PRIMARY KEY\<close>,
  \<^verbatim>\<open>description TEXT\<close> and \<^verbatim>\<open>quantity INTEGER\<close>. The store is \<open>None\<close> while the
  table does not exist (a missing file is created empty on connection, so it has no table
  either).
\<close>

datatype sqlval = Null | Integer int | Text string

type_synonym row = "sqlval \<times> sqlval \<times> sqlval"

type_synonym table = "row list"

type_synonym store = "table option"

definition productID :: "row \<Rightarrow> sqlval" where
  "productID r = fst r"

definition description :: "row \<Rightarrow> sqlval" where
  "description r = fst (snd r)"

definition quantity :: "row \<Rightarrow> sqlval" where
  "quantity r = snd (snd r)"

datatype py_error =
    OperationalError string
  | IntegrityError string
  | OverflowError
  | TypeError

definition DBFILE :: string where
  "DBFILE = ''inventory.db''"

definition DBTABLE :: string where
  "DBTABLE = ''products''"

text \<open>The list of products: each item is \<^verbatim>\<open>[productID, description, quantity]\<close>.\<close>

type_synonym item = "string \<times> string \<times> int"

definition plist :: "item list" where
  "plist =
     [ (''85123A'', ''Blue paisley tissue box'', 8),
       (''82578'',  ''Kitchen metal sign'',      2),
       (''22111'',  ''Small popcorn holder'',    3),
       (''23084'',  ''Rabbit night light'',      8),
       (''22776'',  ''Swallows greeting card'',  4) ]"

subsection \<open>The process state\<close>

text \<open>
  What a run can read and change: the table in the database file, the list object bound
  to the global name \<^verbatim>\<open>plist\<close>, and the lines written to standard output so far.
\<close>

record world =
  inventory_db :: store
  plist_obj :: "item list"
  stdout :: "string list"

definition initial_world :: "store \<Rightarrow> world" where
  "initial_world s = \<lparr> inventory_db = s, plist_obj = plist, stdout = [] \<rparr>"

definition py_print :: "string \<Rightarrow> world \<Rightarrow> world" where
  "py_print line w = w\<lparr> stdout := stdout w @ [line] \<rparr>"

subsection \<open>Formatting with \<^verbatim>\<open>%d\<close> and \<^verbatim>\<open>%s\<close>\<close>

definition digit_char :: "nat \<Rightarrow> char" where
  "digit_char d = ''0123456789'' ! d"

fun str_nat :: "nat \<Rightarrow> string" where
  "str_nat n = (if n < 10 then [digit_char n] else str_nat (n div 10) @ [digit_char (n mod 10)])"

declare str_nat.simps [simp del]

definition str_int :: "int \<Rightarrow> string" where
  "str_int i = (if i < 0 then CHR ''-'' # str_nat (nat (- i)) else str_nat (nat i))"

text \<open>\<^verbatim>\<open>"%s" % v\<close> for a value read from a row: \<^verbatim>\<open>NULL\<close> arrives as \<^verbatim>\<open>None\<close>.\<close>

definition format_s :: "sqlval \<Rightarrow> string" where
  "format_s v = (case v of Null \<Rightarrow> ''None'' | Integer i \<Rightarrow> str_int i | Text s \<Rightarrow> s)"

text \<open>\<^verbatim>\<open>"%d" % v\<close> raises \<^verbatim>\<open>TypeError\<close> unless the value is a number.\<close>

definition format_d :: "sqlval \<Rightarrow> py_error + string" where
  "format_d v = (case v of Integer i \<Rightarrow> Inr (str_int i) | _ \<Rightarrow> Inl TypeError)"

subsection \<open>Connections and transactions\<close>

text \<open>
  A connection sees its own uncommitted changes (\<open>view\<close>); the file holds what is
  committed (\<open>durable\<close>). A statement outside a transaction is committed at once. The
  library opens a transaction before an \<^verbatim>\<open>INSERT\<close> and not before \<^verbatim>\<open>DROP\<close> or
  \<^verbatim>\<open>CREATE\<close>; \<^verbatim>\<open>commit()\<close> makes the view durable; closing, or leaving the connection
  behind when an exception ends the process, discards what was not committed.
\<close>

record connection =
  durable :: store
  view :: store
  in_transaction :: bool

definition sqlite3_connect :: "world \<Rightarrow> connection" where
  "sqlite3_connect w =
     \<lparr> durable = inventory_db w, view = inventory_db w, in_transaction = False \<rparr>"

definition write_table :: "connection \<Rightarrow> store \<Rightarrow> connection" where
  "write_table con s =
     (if in_transaction con then con\<lparr> view := s \<rparr> else con\<lparr> durable := s, view := s \<rparr>)"

definition con_commit :: "connection \<Rightarrow> connection" where
  "con_commit con = con\<lparr> durable := view con, in_transaction := False \<rparr>"

definition con_close :: "connection \<Rightarrow> world \<Rightarrow> world" where
  "con_close con w = w\<lparr> inventory_db := durable con \<rparr>"

definition no_such_table :: py_error where
  "no_such_table = OperationalError (''no such table: '' @ DBTABLE)"

definition unique_failed :: py_error where
  "unique_failed = IntegrityError (''UNIQUE constraint failed: '' @ DBTABLE @ ''.productID'')"

subsection \<open>The statements of \<^verbatim>\<open>load_db\<close>\<close>

text \<open>\<^verbatim>\<open>DROP TABLE products\<close>: an error when there is no such table.\<close>

definition execute_DROP_TABLE :: "connection \<Rightarrow> py_error + connection" where
  "execute_DROP_TABLE con =
     (case view con of
        None \<Rightarrow> Inl no_such_table
      | Some t \<Rightarrow> Inr (write_table con None))"

text \<open>\<^verbatim>\<open>CREATE TABLE IF NOT EXISTS products (...)\<close>: nothing happens when it exists.\<close>

definition execute_CREATE_TABLE :: "connection \<Rightarrow> py_error + connection" where
  "execute_CREATE_TABLE con =
     (case view con of
        None \<Rightarrow> Inr (write_table con (Some []))
      | Some t \<Rightarrow> Inr con)"

text \<open>
  Binding a Python integer: the engine's integers have 64 bits, and a larger one is
  refused with \<^verbatim>\<open>OverflowError\<close>. A Python string is bound as text, whole.
\<close>

definition bind_int :: "int \<Rightarrow> py_error + sqlval" where
  "bind_int i = (if - (2 ^ 63) \<le> i \<and> i < 2 ^ 63 then Inr (Integer i) else Inl OverflowError)"

text \<open>
  One \<^verbatim>\<open>INSERT INTO products (productID, description, quantity) VALUES (?, ?, ?)\<close>:
  the primary key refuses a \<^verbatim>\<open>productID\<close> that a row already has.
\<close>

definition insert_row :: "table \<Rightarrow> item \<Rightarrow> py_error + table" where
  "insert_row t it =
     (case it of (pid, d, q) \<Rightarrow>
        (case bind_int q of
           Inl e \<Rightarrow> Inl e
         | Inr qv \<Rightarrow>
             if Text pid \<in> set (map productID t) then Inl unique_failed
             else Inr (t @ [(Text pid, Text d, qv)])))"

fun insert_rows :: "table \<Rightarrow> item list \<Rightarrow> py_error + table" where
  "insert_rows t [] = Inr t"
| "insert_rows t (it # its) =
     (case insert_row t it of
        Inl e \<Rightarrow> Inl e
      | Inr t' \<Rightarrow> insert_rows t' its)"

text \<open>\<^verbatim>\<open>cur.executemany("INSERT ...", plist)\<close>: one insert per item, in a transaction.\<close>

definition executemany_INSERT :: "connection \<Rightarrow> item list \<Rightarrow> py_error + connection" where
  "executemany_INSERT con its =
     (case view con of
        None \<Rightarrow> Inl no_such_table
      | Some t \<Rightarrow>
          (case insert_rows t its of
             Inl e \<Rightarrow> Inl e
           | Inr t' \<Rightarrow> Inr (con\<lparr> view := Some t', in_transaction := True \<rparr>)))"

text \<open>
  An exception that nothing catches ends the process: the connection is left behind and
  the file keeps what was committed.
\<close>

definition unhandled :: "py_error \<Rightarrow> connection \<Rightarrow> world \<Rightarrow> py_error option \<times> world" where
  "unhandled e con w = (Some e, w\<lparr> inventory_db := durable con \<rparr>)"

definition load_db :: "world \<Rightarrow> py_error option \<times> world" where
  "load_db w =
     (let w1 = py_print (''Loading the database with '' @ str_int (int (length (plist_obj w)))
                           @ '' items.'') w;
          con = sqlite3_connect w1
      in case execute_DROP_TABLE con of
           Inl e \<Rightarrow> unhandled e con w1
         | Inr con1 \<Rightarrow>
             (case execute_CREATE_TABLE con1 of
                Inl e \<Rightarrow> unhandled e con1 w1
              | Inr con2 \<Rightarrow>
                  (case executemany_INSERT con2 (plist_obj w1) of
                     Inl e \<Rightarrow> unhandled e con2 w1
                   | Inr con3 \<Rightarrow> (None, con_close (con_commit con3) w1))))"

subsection \<open>The statements of \<^verbatim>\<open>run_query\<close>\<close>

text \<open>
  \<^verbatim>\<open>LIKE\<close>: \<^verbatim>\<open>%\<close> stands for any run of characters, \<^verbatim>\<open>_\<close> for one character, and
  letters of ASCII match without regard to case. The engine reads the pattern and the text
  as C strings, so each ends at its first NUL character.
\<close>

definition lower :: "char \<Rightarrow> char" where
  "lower c =
     (let n = (of_char c :: nat) in if 65 \<le> n \<and> n \<le> 90 then char_of (n + 32) else c)"

fun patternCompare :: "string \<Rightarrow> string \<Rightarrow> bool" where
  "patternCompare [] s = (s = [])"
| "patternCompare (p # ps) [] = (p = CHR ''%'' \<and> patternCompare ps [])"
| "patternCompare (p # ps) (c # cs) =
     (if p = CHR ''%'' then patternCompare ps (c # cs) \<or> patternCompare (p # ps) cs
      else (p = CHR ''_'' \<or> lower p = lower c) \<and> patternCompare ps cs)"

definition c_string :: "string \<Rightarrow> string" where
  "c_string s = takeWhile (\<lambda>c. c \<noteq> CHR 0x00) s"

definition like :: "string \<Rightarrow> string \<Rightarrow> bool" where
  "like pat s = patternCompare (c_string pat) (c_string s)"

text \<open>\<^verbatim>\<open>description LIKE ?\<close>: never true of \<^verbatim>\<open>NULL\<close>; a number is matched as its text.\<close>

definition sql_like :: "sqlval \<Rightarrow> string \<Rightarrow> bool" where
  "sql_like v pat =
     (case v of Null \<Rightarrow> False | Integer i \<Rightarrow> like pat (str_int i) | Text s \<Rightarrow> like pat s)"

text \<open>\<^verbatim>\<open>productID = ?\<close> with a string bound: true of the equal text only.\<close>

definition sql_eq :: "sqlval \<Rightarrow> string \<Rightarrow> bool" where
  "sql_eq v key = (case v of Text s \<Rightarrow> s = key | _ \<Rightarrow> False)"

definition execute_SELECT_LIKE :: "connection \<Rightarrow> string \<Rightarrow> py_error + row list" where
  "execute_SELECT_LIKE con pat =
     (case view con of
        None \<Rightarrow> Inl no_such_table
      | Some t \<Rightarrow> Inr (filter (\<lambda>r. sql_like (description r) pat) t))"

definition execute_SELECT_productID :: "connection \<Rightarrow> string \<Rightarrow> py_error + row list" where
  "execute_SELECT_productID con key =
     (case view con of
        None \<Rightarrow> Inl no_such_table
      | Some t \<Rightarrow> Inr (filter (\<lambda>r. sql_eq (productID r) key) t))"

text \<open>The loop \<^verbatim>\<open>for r in recs\<close>: three lines per row, the third with \<^verbatim>\<open>%d\<close>.\<close>

fun print_recs :: "row list \<Rightarrow> world \<Rightarrow> py_error option \<times> world" where
  "print_recs [] w = (None, w)"
| "print_recs (r # rs) w =
     (let w1 = py_print (''Product ID: '' @ format_s (productID r)) w;
          w2 = py_print (''Description: '' @ format_s (description r)) w1
      in case format_d (quantity r) of
           Inl e \<Rightarrow> (Some e, w2)
         | Inr q \<Rightarrow> print_recs rs (py_print (''Quantity: '' @ q) w2))"

text \<open>Lines 81 to 88, for a search string; lines 91 to 97, for a key.\<close>

definition query1 :: "connection \<Rightarrow> string \<Rightarrow> world \<Rightarrow> py_error option \<times> world" where
  "query1 con toSearch w =
     (case execute_SELECT_LIKE con (''%'' @ toSearch @ ''%'') of
        Inl e \<Rightarrow> (Some e, w)
      | Inr recs \<Rightarrow> print_recs recs (py_print ''Records that match query 1: '' w))"

definition query2 :: "connection \<Rightarrow> string \<Rightarrow> world \<Rightarrow> py_error option \<times> world" where
  "query2 con key w =
     (case execute_SELECT_productID con key of
        Inl e \<Rightarrow> (Some e, w)
      | Inr recs \<Rightarrow> print_recs recs (py_print ''Records that match query 2: '' w))"

definition run_query :: "world \<Rightarrow> py_error option \<times> world" where
  "run_query w =
     (let con = sqlite3_connect w
      in case query1 con ''sign'' w of
           (Some e, w1) \<Rightarrow> unhandled e con w1
         | (None, w1) \<Rightarrow>
             (case query2 con ''22776'' w1 of
                (Some e, w2) \<Rightarrow> unhandled e con w2
              | (None, w2) \<Rightarrow> (None, con_close con w2)))"

definition main :: "world \<Rightarrow> py_error option \<times> world" where
  "main w =
     (case load_db (py_print ''Loading the database...'' w) of
        (Some e, w1) \<Rightarrow> (Some e, w1)
      | (None, w1) \<Rightarrow> run_query (py_print ''Querying:'' (py_print ''Done.'' w1)))"

subsection \<open>Notions used in the statements\<close>

text \<open>The row a Record of the list is expected to become: each field as it is.\<close>

definition record_row :: "item \<Rightarrow> row" where
  "record_row it = (case it of (pid, d, q) \<Rightarrow> (Text pid, Text d, Integer q))"

text \<open>A row whose description contains a given string as a substring.\<close>

definition description_contains :: "string \<Rightarrow> row \<Rightarrow> bool" where
  "description_contains s r = (case description r of Text d \<Rightarrow> sublist s d | _ \<Rightarrow> False)"

text \<open>The first line \<^verbatim>\<open>load_db\<close> prints.\<close>

definition loading_line :: "world \<Rightarrow> string" where
  "loading_line w =
     ''Loading the database with '' @ str_int (int (length (plist_obj w))) @ '' items.''"

section \<open>Properties\<close>

subsection \<open>What the procedures compute\<close>

lemma load_db_no_table:
  assumes "inventory_db w = None"
  shows "load_db w = (Some no_such_table, py_print (loading_line w) w)"
  using assms
  by (cases w) (simp add: load_db_def Let_def sqlite3_connect_def execute_DROP_TABLE_def
      unhandled_def py_print_def loading_line_def)

lemma load_db_table:
  assumes "inventory_db w = Some t"
  shows "load_db w =
     (case insert_rows [] (plist_obj w) of
        Inl e \<Rightarrow> (Some e, (py_print (loading_line w) w)\<lparr> inventory_db := Some [] \<rparr>)
      | Inr t' \<Rightarrow> (None, (py_print (loading_line w) w)\<lparr> inventory_db := Some t' \<rparr>))"
  using assms
  by (simp add: load_db_def Let_def sqlite3_connect_def execute_DROP_TABLE_def
      execute_CREATE_TABLE_def executemany_INSERT_def write_table_def con_commit_def
      con_close_def unhandled_def py_print_def loading_line_def split: sum.splits)

lemma insert_rows_plist: "insert_rows [] plist = Inr (map record_row plist)"
  by (simp add: plist_def insert_row_def bind_int_def productID_def record_row_def)

lemma sample_rows:
  "map record_row plist =
     [ (Text ''85123A'', Text ''Blue paisley tissue box'', Integer 8),
       (Text ''82578'', Text ''Kitchen metal sign'', Integer 2),
       (Text ''22111'', Text ''Small popcorn holder'', Integer 3),
       (Text ''23084'', Text ''Rabbit night light'', Integer 8),
       (Text ''22776'', Text ''Swallows greeting card'', Integer 4) ]"
  by (simp add: plist_def record_row_def)

lemma loading_line_plist:
  "plist_obj w = plist \<Longrightarrow> loading_line w = ''Loading the database with 5 items.''"
  by (simp add: loading_line_def plist_def str_int_def str_nat.simps digit_char_def)

lemma load_db_sample:
  assumes "plist_obj w = plist" and "inventory_db w = Some t"
  shows "load_db w =
     (None, (py_print ''Loading the database with 5 items.'' w)
               \<lparr> inventory_db := Some (map record_row plist) \<rparr>)"
  using assms by (simp add: load_db_table insert_rows_plist loading_line_plist)

subsection \<open>The loader\<close>

text \<open>
  C1. Whatever rows the table held, when the table exists the loader completes and the
  store then holds exactly the five sample Records, in the order of the list, and nothing
  else. A second run right after the first completes too and leaves the same five rows,
  none of them twice.
\<close>

theorem load_db_exactly_sample:
  assumes "plist_obj w = plist" and "inventory_db w = Some t"
  shows "fst (load_db w) = None
       \<and> inventory_db (snd (load_db w)) =
           Some [ (Text ''85123A'', Text ''Blue paisley tissue box'', Integer 8),
                  (Text ''82578'', Text ''Kitchen metal sign'', Integer 2),
                  (Text ''22111'', Text ''Small popcorn holder'', Integer 3),
                  (Text ''23084'', Text ''Rabbit night light'', Integer 8),
                  (Text ''22776'', Text ''Swallows greeting card'', Integer 4) ]
       \<and> fst (load_db (snd (load_db w))) = None
       \<and> inventory_db (snd (load_db (snd (load_db w)))) = inventory_db (snd (load_db w))"
proof -
  let ?w1 = "(py_print ''Loading the database with 5 items.'' w)
               \<lparr> inventory_db := Some (map record_row plist) \<rparr>"
  have first: "load_db w = (None, ?w1)"
    using assms by (rule load_db_sample)
  have "plist_obj ?w1 = plist" and "inventory_db ?w1 = Some (map record_row plist)"
    using assms by (simp_all add: py_print_def)
  then have second: "load_db ?w1 =
      (None, (py_print ''Loading the database with 5 items.'' ?w1)
                \<lparr> inventory_db := Some (map record_row plist) \<rparr>)"
    by (rule load_db_sample)
  have "fst (load_db w) = None" and "inventory_db (snd (load_db w)) = Some (map record_row plist)"
    and "snd (load_db w) = ?w1"
    by (simp_all add: first)
  moreover have "fst (load_db ?w1) = None"
    and "inventory_db (snd (load_db ?w1)) = Some (map record_row plist)"
    by (simp_all add: second)
  ultimately show ?thesis
    by (simp add: sample_rows)
qed

theorem load_db_exactly_sample_witness:
  "plist_obj (initial_world (Some [(Text ''22776'', Text ''stale'', Null), (Null, Null, Null)])) = plist
   \<and> fst (load_db (initial_world (Some [(Text ''22776'', Text ''stale'', Null), (Null, Null, Null)]))) = None
   \<and> inventory_db (snd (load_db (initial_world (Some [(Text ''22776'', Text ''stale'', Null), (Null, Null, Null)])))) =
           Some [ (Text ''85123A'', Text ''Blue paisley tissue box'', Integer 8),
                  (Text ''82578'', Text ''Kitchen metal sign'', Integer 2),
                  (Text ''22111'', Text ''Small popcorn holder'', Integer 3),
                  (Text ''23084'', Text ''Rabbit night light'', Integer 8),
                  (Text ''22776'', Text ''Swallows greeting card'', Integer 4) ]"
  using load_db_exactly_sample
    [of "initial_world (Some [(Text ''22776'', Text ''stale'', Null), (Null, Null, Null)])"
        "[(Text ''22776'', Text ''stale'', Null), (Null, Null, Null)]"]
  by (simp add: initial_world_def)

text \<open>
  C2. When the table does not exist, the \<^verbatim>\<open>DROP TABLE\<close> of the loader raises
  \<^verbatim>\<open>OperationalError\<close>, which nothing catches: the loader and the whole run end
  with it, after the loader's first line of output, and the store is left without the table.
  No check comes before the drop.
\<close>

theorem load_db_missing_table:
  assumes "inventory_db w = None"
  shows "fst (load_db w) = Some (OperationalError ''no such table: products'')
       \<and> inventory_db (snd (load_db w)) = None
       \<and> stdout (snd (load_db w)) = stdout w @ [loading_line w]
       \<and> fst (main w) = Some (OperationalError ''no such table: products'')
       \<and> inventory_db (snd (main w)) = None
       \<and> stdout (snd (main w)) = stdout w @ [''Loading the database...'', loading_line w]"
proof -
  let ?w0 = "py_print ''Loading the database...'' w"
  have err: "no_such_table = OperationalError ''no such table: products''"
    by (simp add: no_such_table_def DBTABLE_def)
  have l: "load_db w = (Some no_such_table, py_print (loading_line w) w)"
    using assms by (rule load_db_no_table)
  have "inventory_db ?w0 = None"
    using assms by (simp add: py_print_def)
  then have "load_db ?w0 = (Some no_such_table, py_print (loading_line ?w0) ?w0)"
    by (rule load_db_no_table)
  then have m: "main w = (Some no_such_table, py_print (loading_line ?w0) ?w0)"
    by (simp add: main_def)
  have ll: "loading_line ?w0 = loading_line w"
    by (simp add: loading_line_def py_print_def)
  show ?thesis
    unfolding l m err ll using assms by (simp add: py_print_def)
qed

theorem load_db_missing_table_witness:
  "inventory_db (initial_world None) = None
   \<and> fst (main (initial_world None)) = Some (OperationalError ''no such table: products'')
   \<and> stdout (snd (main (initial_world None))) =
       [''Loading the database...'', ''Loading the database with 5 items.'']"
  using load_db_missing_table [of "initial_world None"]
  by (simp add: initial_world_def loading_line_def plist_def str_int_def str_nat.simps digit_char_def)

lemma load_db_success:
  assumes "load_db w = (None, w')"
  shows "\<exists>t'. insert_rows [] (plist_obj w) = Inr t'
           \<and> w' = (py_print (loading_line w) w)\<lparr> inventory_db := Some t' \<rparr>"
proof (cases "inventory_db w")
  case None
  then show ?thesis
    using assms by (simp add: load_db_no_table)
next
  case (Some t)
  then show ?thesis
    using assms by (auto simp: load_db_table split: sum.splits)
qed

subsection \<open>The primary key\<close>

lemma insert_row_Inr:
  assumes "insert_row t it = Inr t'"
  shows "Text (fst it) \<notin> set (map productID t) \<and> t' = t @ [record_row it]"
  using assms
  by (cases it) (auto simp: insert_row_def bind_int_def record_row_def split: sum.splits if_splits)

lemma productID_record_row: "productID (record_row it) = Text (fst it)"
  by (cases it) (simp add: productID_def record_row_def)

lemma insert_row_distinct:
  assumes "distinct (map productID t)" and "insert_row t it = Inr t'"
  shows "distinct (map productID t')"
  using assms insert_row_Inr [of t it t'] by (auto simp: productID_record_row)

lemma insert_rows_Inr:
  assumes "insert_rows t its = Inr t'" and "distinct (map productID t)"
  shows "t' = t @ map record_row its \<and> distinct (map productID t')"
  using assms
proof (induction its arbitrary: t)
  case Nil
  then show ?case by simp
next
  case (Cons it its)
  from Cons.prems(1) obtain t1 where step: "insert_row t it = Inr t1"
    and rest: "insert_rows t1 its = Inr t'"
    by (auto split: sum.splits)
  from step have t1: "t1 = t @ [record_row it]"
    using insert_row_Inr by blast
  from step Cons.prems(2) have "distinct (map productID t1)"
    using insert_row_distinct by blast
  with rest have both: "t' = t1 @ map record_row its \<and> distinct (map productID t')"
    by (rule Cons.IH)
  from both t1 have "t' = t @ map record_row (it # its)" by simp
  with both show ?case by blast
qed

lemma sql_eq_iff: "sql_eq v key \<longleftrightarrow> v = Text key"
  by (cases v) (auto simp: sql_eq_def)

lemma select_key_absent:
  assumes "Text key \<notin> set (map productID t)"
  shows "filter (\<lambda>r. sql_eq (productID r) key) t = []"
  using assms by (induction t) (auto simp: sql_eq_iff)

lemma select_at_most_one:
  assumes "distinct (map productID t)"
  shows "length (filter (\<lambda>r. sql_eq (productID r) key) t) \<le> 1"
  using assms
proof (induction t)
  case Nil
  then show ?case by simp
next
  case (Cons r t)
  show ?case
  proof (cases "productID r = Text key")
    case True
    with Cons.prems have "Text key \<notin> set (map productID t)" by simp
    then have "filter (\<lambda>r. sql_eq (productID r) key) t = []"
      by (rule select_key_absent)
    with True show ?thesis by (simp add: sql_eq_iff)
  next
    case False
    with Cons show ?thesis by (simp add: sql_eq_iff)
  qed
qed

lemma select_the_row:
  assumes "distinct (map productID t)" and "r \<in> set t" and "productID r = Text key"
  shows "filter (\<lambda>r. sql_eq (productID r) key) t = [r]"
  using assms
proof (induction t)
  case Nil
  then show ?case by simp
next
  case (Cons a t)
  show ?case
  proof (cases "a = r")
    case True
    with Cons.prems have "Text key \<notin> set (map productID t)" by auto
    then have "filter (\<lambda>r. sql_eq (productID r) key) t = []"
      by (rule select_key_absent)
    with True Cons.prems(3) show ?thesis by (simp add: sql_eq_iff)
  next
    case False
    with Cons.prems have "r \<in> set t" and "distinct (map productID t)" by auto
    moreover from this Cons.prems have "productID a \<noteq> Text key" by force
    ultimately show ?thesis using Cons.IH Cons.prems(3) by (simp add: sql_eq_iff)
  qed
qed

lemma load_db_table_of:
  assumes "load_db w = (None, w')"
  obtains t where "inventory_db w' = Some t" and "t = map record_row (plist_obj w)"
    and "distinct (map productID t)"
proof -
  from assms obtain t' where ins: "insert_rows [] (plist_obj w) = Inr t'"
    and w': "w' = (py_print (loading_line w) w)\<lparr> inventory_db := Some t' \<rparr>"
    using load_db_success by blast
  have "distinct (map productID ([] :: table))" by simp
  with ins have both: "t' = [] @ map record_row (plist_obj w) \<and> distinct (map productID t')"
    by (rule insert_rows_Inr)
  from both have "t' = map record_row (plist_obj w)" by simp
  moreover from both have "distinct (map productID t')" by (rule conjunct2)
  moreover from w' have "inventory_db w' = Some t'" by simp
  ultimately show ?thesis using that by blast
qed

lemma select_connect:
  assumes "inventory_db w = Some t"
  shows "execute_SELECT_productID (sqlite3_connect w) key =
           Inr (filter (\<lambda>r. sql_eq (productID r) key) t)"
  using assms by (simp add: execute_SELECT_productID_def sqlite3_connect_def)

subsection \<open>Reading back what was loaded\<close>

text \<open>
  C3. Round trip: when the loader has completed, the \<^verbatim>\<open>SELECT\<close> by exact
  \<^verbatim>\<open>productID\<close> of any Record of the list it loaded returns one row, whose
  description and quantity are the Record's own: the whole string and the same integer.
  The list is the one the global \<^verbatim>\<open>plist\<close> is bound to, which is the fixed list in
  every run of the program.
\<close>

theorem round_trip:
  assumes "load_db w = (None, w')" and "(pid, d, q) \<in> set (plist_obj w)"
  shows "execute_SELECT_productID (sqlite3_connect w') pid = Inr [(Text pid, Text d, Integer q)]"
proof -
  from assms(1) obtain t where tab: "inventory_db w' = Some t"
    and t: "t = map record_row (plist_obj w)" and dist: "distinct (map productID t)"
    by (rule load_db_table_of)
  from assms(2) t have "record_row (pid, d, q) \<in> set t" by force
  moreover have "productID (record_row (pid, d, q)) = Text pid"
    by (simp add: productID_record_row)
  ultimately have "filter (\<lambda>r. sql_eq (productID r) pid) t = [record_row (pid, d, q)]"
    using dist select_the_row by blast
  with tab show ?thesis
    by (simp add: select_connect record_row_def)
qed

theorem round_trip_witness:
  "load_db (initial_world (Some [])) = (None, snd (load_db (initial_world (Some []))))
   \<and> (''23084'', ''Rabbit night light'', 8) \<in> set (plist_obj (initial_world (Some [])))
   \<and> execute_SELECT_productID (sqlite3_connect (snd (load_db (initial_world (Some [])))))
         ''23084'' = Inr [(Text ''23084'', Text ''Rabbit night light'', Integer 8)]"
proof -
  have run: "load_db (initial_world (Some [])) = (None, snd (load_db (initial_world (Some []))))"
    by (simp add: load_db_sample [of _ "[]"] initial_world_def)
  have mem: "(''23084'', ''Rabbit night light'', 8) \<in> set (plist_obj (initial_world (Some [])))"
    by (simp add: initial_world_def plist_def)
  from round_trip [OF run mem] run mem show ?thesis by blast
qed

subsection \<open>The pattern of query 1 matches anywhere in the field\<close>

text \<open>
  A search string without wildcards, put between two \<^verbatim>\<open>%\<close>, matches a text exactly
  when the text has a part that equals the search string up to the case of ASCII letters
  (for strings without a NUL character, which would end them).
\<close>

lemma patternCompare_percent: "patternCompare ''%'' s"
  by (induction s) simp_all

lemma patternCompare_literal_prefix:
  assumes "CHR ''%'' \<notin> set p" and "CHR ''_'' \<notin> set p"
  shows "patternCompare (p @ ''%'') s \<longleftrightarrow>
           length p \<le> length s \<and> map lower (take (length p) s) = map lower p"
  using assms
proof (induction p arbitrary: s)
  case Nil
  show ?case using patternCompare_percent by simp
next
  case (Cons a p)
  show ?case
  proof (cases s)
    case Nil
    with Cons.prems show ?thesis by auto
  next
    case (Cons c cs)
    from Cons.prems have "CHR ''%'' \<notin> set p" and "CHR ''_'' \<notin> set p" by simp_all
    then have "patternCompare (p @ ''%'') cs \<longleftrightarrow>
        length p \<le> length cs \<and> map lower (take (length p) cs) = map lower p"
      by (rule Cons.IH)
    with Cons Cons.prems show ?thesis by auto
  qed
qed

lemma patternCompare_percent_Cons:
  "patternCompare (CHR ''%'' # q) s \<longleftrightarrow> (\<exists>n\<le>length s. patternCompare q (drop n s))"
proof (induction s)
  case Nil
  show ?case by simp
next
  case (Cons c cs)
  have "(\<exists>n\<le>length (c # cs). patternCompare q (drop n (c # cs))) \<longleftrightarrow>
      patternCompare q (c # cs) \<or> (\<exists>n\<le>length cs. patternCompare q (drop n cs))"
  proof
    assume "\<exists>n\<le>length (c # cs). patternCompare q (drop n (c # cs))"
    then obtain n where n: "n \<le> length (c # cs)" "patternCompare q (drop n (c # cs))" by blast
    show "patternCompare q (c # cs) \<or> (\<exists>n\<le>length cs. patternCompare q (drop n cs))"
    proof (cases n)
      case 0
      with n show ?thesis by simp
    next
      case (Suc m)
      with n have "m \<le> length cs" and "patternCompare q (drop m cs)" by simp_all
      then show ?thesis by blast
    qed
  next
    assume "patternCompare q (c # cs) \<or> (\<exists>n\<le>length cs. patternCompare q (drop n cs))"
    then show "\<exists>n\<le>length (c # cs). patternCompare q (drop n (c # cs))"
    proof
      assume "patternCompare q (c # cs)"
      then have "0 \<le> length (c # cs) \<and> patternCompare q (drop 0 (c # cs))" by simp
      then show ?thesis by blast
    next
      assume "\<exists>n\<le>length cs. patternCompare q (drop n cs)"
      then obtain m where "m \<le> length cs" and "patternCompare q (drop m cs)" by blast
      then have "Suc m \<le> length (c # cs) \<and> patternCompare q (drop (Suc m) (c # cs))" by simp
      then show ?thesis by blast
    qed
  qed
  with Cons.IH show ?case by simp
qed

lemma patternCompare_wrapped:
  assumes "CHR ''%'' \<notin> set x" and "CHR ''_'' \<notin> set x"
  shows "patternCompare (''%'' @ x @ ''%'') s \<longleftrightarrow>
           (\<exists>pre mid post. s = pre @ mid @ post \<and> map lower mid = map lower x)"
proof
  assume "patternCompare (''%'' @ x @ ''%'') s"
  then obtain n where n: "n \<le> length s" and m: "patternCompare (x @ ''%'') (drop n s)"
    using patternCompare_percent_Cons [of "x @ ''%''" s] by auto
  from m have len: "length x \<le> length (drop n s)"
    and eq: "map lower (take (length x) (drop n s)) = map lower x"
    using patternCompare_literal_prefix [OF assms, of "drop n s"] by simp_all
  have "take (length x) (drop n s) @ drop (length x) (drop n s) = drop n s"
    by (rule append_take_drop_id)
  then have "s = take n s @ take (length x) (drop n s) @ drop (length x) (drop n s)"
    by (simp only: append_take_drop_id)
  with eq show "\<exists>pre mid post. s = pre @ mid @ post \<and> map lower mid = map lower x"
    by blast
next
  assume "\<exists>pre mid post. s = pre @ mid @ post \<and> map lower mid = map lower x"
  then obtain pre mid post where s: "s = pre @ mid @ post"
    and eq: "map lower mid = map lower x" by blast
  from eq have l: "length mid = length x"
    using map_eq_imp_length_eq by blast
  have d: "drop (length pre) s = mid @ post"
    using s by simp
  have "patternCompare (x @ ''%'') (drop (length pre) s)"
    using patternCompare_literal_prefix [OF assms, of "drop (length pre) s"] d l eq by simp
  moreover have "length pre \<le> length s"
    using s by simp
  ultimately show "patternCompare (''%'' @ x @ ''%'') s"
    using patternCompare_percent_Cons [of "x @ ''%''" s] by auto
qed

lemma c_string_id: "CHR 0x00 \<notin> set s \<Longrightarrow> c_string s = s"
  by (auto simp: c_string_def)

lemma like_wrapped:
  assumes "CHR ''%'' \<notin> set x" and "CHR ''_'' \<notin> set x"
    and "CHR 0x00 \<notin> set x" and "CHR 0x00 \<notin> set s"
  shows "like (''%'' @ x @ ''%'') s \<longleftrightarrow>
           (\<exists>pre mid post. s = pre @ mid @ post \<and> map lower mid = map lower x)"
proof -
  from assms(3) have "CHR 0x00 \<notin> set (''%'' @ x @ ''%'')"
    by simp
  then have "c_string (''%'' @ x @ ''%'') = ''%'' @ x @ ''%''"
    by (rule c_string_id)
  moreover from assms(4) have "c_string s = s"
    by (rule c_string_id)
  ultimately have "like (''%'' @ x @ ''%'') s = patternCompare (''%'' @ x @ ''%'') s"
    by (simp only: like_def)
  with patternCompare_wrapped [OF assms(1,2), of s] show ?thesis
    by simp
qed

subsection \<open>The selections on the loaded table\<close>

lemma load_db_sample_table:
  assumes "plist_obj w = plist" and "load_db w = (None, w')"
  shows "inventory_db w' = Some (map record_row plist)"
proof -
  from assms(2) obtain t where "inventory_db w' = Some t" and "t = map record_row (plist_obj w)"
    by (rule load_db_table_of)
  with assms(1) show ?thesis by simp
qed

lemma select_like_connect:
  assumes "inventory_db w = Some t"
  shows "execute_SELECT_LIKE (sqlite3_connect w) pat =
           Inr (filter (\<lambda>r. sql_like (description r) pat) t)"
  using assms by (simp add: execute_SELECT_LIKE_def sqlite3_connect_def)

lemma like_sign_sample:
  "filter (\<lambda>r. sql_like (description r) ''%sign%'') (map record_row plist) =
     [(Text ''82578'', Text ''Kitchen metal sign'', Integer 2)]"
  by (simp add: sample_rows sql_like_def like_def c_string_def description_def lower_def)

lemma contains_sign_sample:
  "filter (description_contains ''sign'') (map record_row plist) =
     [(Text ''82578'', Text ''Kitchen metal sign'', Integer 2)]"
  by (simp add: sample_rows description_contains_def description_def sublist_Cons_right)

subsection \<open>Frames and failures\<close>


lemma print_recs_frame:
  "inventory_db (snd (print_recs rs w)) = inventory_db w
   \<and> plist_obj (snd (print_recs rs w)) = plist_obj w"
proof (induction rs arbitrary: w)
  case Nil
  show ?case by simp
next
  case (Cons r rs)
  show ?case
  proof (cases "format_d (quantity r)")
    case (Inl e)
    then show ?thesis by (simp add: Let_def py_print_def)
  next
    case (Inr q)
    then show ?thesis by (simp add: Let_def Cons.IH) (simp add: py_print_def)
  qed
qed

lemma query1_frame:
  "inventory_db (snd (query1 con s w)) = inventory_db w
   \<and> plist_obj (snd (query1 con s w)) = plist_obj w"
  by (cases "execute_SELECT_LIKE con (''%'' @ s @ ''%'')")
     (simp_all add: query1_def print_recs_frame, simp add: py_print_def)

lemma query2_frame:
  "inventory_db (snd (query2 con key w)) = inventory_db w
   \<and> plist_obj (snd (query2 con key w)) = plist_obj w"
  by (cases "execute_SELECT_productID con key")
     (simp_all add: query2_def print_recs_frame, simp add: py_print_def)

lemma run_query_frame:
  "inventory_db (snd (run_query w)) = inventory_db w
   \<and> plist_obj (snd (run_query w)) = plist_obj w"
proof -
  let ?con = "sqlite3_connect w"
  obtain r1 w1 where q1: "query1 ?con ''sign'' w = (r1, w1)"
    by (cases "query1 ?con ''sign'' w")
  obtain r2 w2 where q2: "query2 ?con ''22776'' w1 = (r2, w2)"
    by (cases "query2 ?con ''22776'' w1")
  have f1: "plist_obj w1 = plist_obj w"
    using query1_frame [of ?con "''sign''" w] q1 by simp
  have f2: "plist_obj w2 = plist_obj w1"
    using query2_frame [of ?con "''22776''" w1] q2 by simp
  have d: "durable ?con = inventory_db w"
    by (simp add: sqlite3_connect_def)
  show ?thesis
    using q1 q2 f1 f2 d
    by (cases r1; cases r2) (simp_all add: run_query_def Let_def unhandled_def con_close_def)
qed

lemma load_db_frame: "plist_obj (snd (load_db w)) = plist_obj w"
proof (cases "inventory_db w")
  case None
  then show ?thesis by (simp add: load_db_no_table py_print_def)
next
  case (Some t)
  then show ?thesis by (simp add: load_db_table py_print_def split: sum.splits)
qed


subsection \<open>A whole run\<close>

lemma run_query_sample:
  assumes "inventory_db w = Some (map record_row plist)"
  shows "run_query w =
     (None, w\<lparr> stdout := stdout w @
        [''Records that match query 1: '',
         ''Product ID: 82578'', ''Description: Kitchen metal sign'', ''Quantity: 2'',
         ''Records that match query 2: '',
         ''Product ID: 22776'', ''Description: Swallows greeting card'', ''Quantity: 4''] \<rparr>)"
proof -
  let ?con = "sqlite3_connect w"
  let ?w1 = "w\<lparr> stdout := stdout w @
        [''Records that match query 1: '',
         ''Product ID: 82578'', ''Description: Kitchen metal sign'', ''Quantity: 2''] \<rparr>"
  have two: "str_int 2 = ''2''" and four: "str_int 4 = ''4''"
    by (simp_all add: str_int_def str_nat.simps digit_char_def)
  have "execute_SELECT_LIKE ?con (''%'' @ ''sign'' @ ''%'') =
      Inr [(Text ''82578'', Text ''Kitchen metal sign'', Integer 2)]"
    using assms like_sign_sample by (simp add: select_like_connect)
  then have q1: "query1 ?con ''sign'' w = (None, ?w1)"
    by (simp add: query1_def Let_def py_print_def format_s_def format_d_def two
        productID_def description_def quantity_def)
  have "filter (\<lambda>r. sql_eq (productID r) ''22776'') (map record_row plist) =
      [(Text ''22776'', Text ''Swallows greeting card'', Integer 4)]"
    by (simp add: sample_rows sql_eq_def productID_def)
  then have "execute_SELECT_productID ?con ''22776'' =
      Inr [(Text ''22776'', Text ''Swallows greeting card'', Integer 4)]"
    using assms by (simp add: select_connect)
  then have q2: "query2 ?con ''22776'' ?w1 = (None, ?w1\<lparr> stdout := stdout ?w1 @
        [''Records that match query 2: '',
         ''Product ID: 22776'', ''Description: Swallows greeting card'', ''Quantity: 4''] \<rparr>)"
    by (simp add: query2_def Let_def py_print_def format_s_def format_d_def four
        productID_def description_def quantity_def)
  have d: "durable ?con = inventory_db w"
    by (simp add: sqlite3_connect_def)
  show ?thesis
    by (simp add: run_query_def Let_def q1 q2 con_close_def d)
qed

lemma main_table:
  assumes "plist_obj w = plist" and "inventory_db w = Some t"
  shows "main w =
     (None, w\<lparr> inventory_db := Some (map record_row plist),
               stdout := stdout w @
        [''Loading the database...'', ''Loading the database with 5 items.'',
         ''Done.'', ''Querying:'',
         ''Records that match query 1: '',
         ''Product ID: 82578'', ''Description: Kitchen metal sign'', ''Quantity: 2'',
         ''Records that match query 2: '',
         ''Product ID: 22776'', ''Description: Swallows greeting card'', ''Quantity: 4''] \<rparr>)"
proof -
  let ?w0 = "py_print ''Loading the database...'' w"
  let ?w1 = "(py_print ''Loading the database with 5 items.'' ?w0)
               \<lparr> inventory_db := Some (map record_row plist) \<rparr>"
  let ?w2 = "py_print ''Querying:'' (py_print ''Done.'' ?w1)"
  have "plist_obj ?w0 = plist" and "inventory_db ?w0 = Some t"
    using assms by (simp_all add: py_print_def)
  then have l: "load_db ?w0 = (None, ?w1)"
    by (rule load_db_sample)
  have "inventory_db ?w2 = Some (map record_row plist)"
    by (simp add: py_print_def)
  then have "run_query ?w2 = (None, ?w2\<lparr> stdout := stdout ?w2 @
        [''Records that match query 1: '',
         ''Product ID: 82578'', ''Description: Kitchen metal sign'', ''Quantity: 2'',
         ''Records that match query 2: '',
         ''Product ID: 22776'', ''Description: Swallows greeting card'', ''Quantity: 4''] \<rparr>)"
    by (rule run_query_sample)
  with l show ?thesis
    by (simp add: main_def py_print_def)
qed

lemma main_no_table:
  assumes "inventory_db w = None"
  shows "main w =
     (Some no_such_table,
      py_print (loading_line w) (py_print ''Loading the database...'' w))"
proof -
  let ?w0 = "py_print ''Loading the database...'' w"
  have "inventory_db ?w0 = None"
    using assms by (simp add: py_print_def)
  then have "load_db ?w0 = (Some no_such_table, py_print (loading_line ?w0) ?w0)"
    by (rule load_db_no_table)
  moreover have "loading_line ?w0 = loading_line w"
    by (simp add: loading_line_def py_print_def)
  ultimately show ?thesis
    by (simp add: main_def)
qed

subsection \<open>The two queries of the query runner\<close>

lemma print_recs_one:
  assumes "format_d (quantity r) = Inr q"
  shows "print_recs [r] w =
     (None, w\<lparr> stdout := stdout w @
        [''Product ID: '' @ format_s (productID r),
         ''Description: '' @ format_s (description r),
         ''Quantity: '' @ q] \<rparr>)"
  using assms by (simp add: Let_def py_print_def)

lemma str_int_2_4: "str_int 2 = ''2''" "str_int 4 = ''4''"
  by (simp_all add: str_int_def str_nat.simps digit_char_def)

text \<open>
  C4. On the table the loader has filled with the sample list, query 1 of the query runner
  (the \<^verbatim>\<open>LIKE\<close> query for \<^verbatim>\<open>sign\<close> between two \<^verbatim>\<open>%\<close>) selects exactly the
  rows whose description contains \<^verbatim>\<open>sign\<close> as a substring, and that is one row: product
  \<^verbatim>\<open>82578\<close>, \<^verbatim>\<open>Kitchen metal sign\<close>. The loop of query 1 runs over these rows
  and prints that one, and so does the query runner as a whole.
\<close>

theorem like_query_sample:
  assumes "plist_obj w = plist" and "load_db w = (None, w')"
  shows "\<exists>t. inventory_db w' = Some t
       \<and> filter (description_contains ''sign'') t =
           [(Text ''82578'', Text ''Kitchen metal sign'', Integer 2)]
       \<and> execute_SELECT_LIKE (sqlite3_connect w') (''%'' @ ''sign'' @ ''%'') =
           Inr (filter (description_contains ''sign'') t)
       \<and> query1 (sqlite3_connect w') ''sign'' w' =
           print_recs (filter (description_contains ''sign'') t)
             (py_print ''Records that match query 1: '' w')
       \<and> query1 (sqlite3_connect w') ''sign'' w' =
           (None, w'\<lparr> stdout := stdout w' @
              [''Records that match query 1: '',
               ''Product ID: 82578'', ''Description: Kitchen metal sign'', ''Quantity: 2''] \<rparr>)
       \<and> run_query w' =
           (None, w'\<lparr> stdout := stdout w' @
              [''Records that match query 1: '',
               ''Product ID: 82578'', ''Description: Kitchen metal sign'', ''Quantity: 2'',
               ''Records that match query 2: '',
               ''Product ID: 22776'', ''Description: Swallows greeting card'',
               ''Quantity: 4''] \<rparr>)"
proof -
  let ?con = "sqlite3_connect w'"
  let ?r = "(Text ''82578'', Text ''Kitchen metal sign'', Integer 2)"
  let ?h = "py_print ''Records that match query 1: '' w'"
  from assms have tab: "inventory_db w' = Some (map record_row plist)"
    by (rule load_db_sample_table)
  have flt: "filter (description_contains ''sign'') (map record_row plist) = [?r]"
    by (rule contains_sign_sample)
  from tab have sel: "execute_SELECT_LIKE ?con (''%'' @ ''sign'' @ ''%'') = Inr [?r]"
    using like_sign_sample by (simp add: select_like_connect)
  then have q1: "query1 ?con ''sign'' w' = print_recs [?r] ?h"
    by (simp add: query1_def)
  have "format_d (quantity ?r) = Inr ''2''"
    by (simp add: format_d_def quantity_def str_int_2_4)
  then have "print_recs [?r] ?h =
      (None, ?h\<lparr> stdout := stdout ?h @
        [''Product ID: '' @ format_s (productID ?r),
         ''Description: '' @ format_s (description ?r),
         ''Quantity: '' @ ''2''] \<rparr>)"
    by (rule print_recs_one)
  then have out: "print_recs [?r] ?h =
      (None, w'\<lparr> stdout := stdout w' @
              [''Records that match query 1: '',
               ''Product ID: 82578'', ''Description: Kitchen metal sign'', ''Quantity: 2''] \<rparr>)"
    by (simp add: py_print_def format_s_def productID_def description_def)
  from tab have rq: "run_query w' =
           (None, w'\<lparr> stdout := stdout w' @
              [''Records that match query 1: '',
               ''Product ID: 82578'', ''Description: Kitchen metal sign'', ''Quantity: 2'',
               ''Records that match query 2: '',
               ''Product ID: 22776'', ''Description: Swallows greeting card'',
               ''Quantity: 4''] \<rparr>)"
    by (rule run_query_sample)
  from tab flt sel q1 out rq show ?thesis
    by (intro exI [of _ "map record_row plist"] conjI) (simp_all only:)
qed

theorem like_query_sample_witness:
  "plist_obj (initial_world (Some [])) = plist
   \<and> load_db (initial_world (Some [])) = (None, snd (load_db (initial_world (Some []))))
   \<and> stdout (snd (query1 (sqlite3_connect (snd (load_db (initial_world (Some [])))))
         ''sign'' (snd (load_db (initial_world (Some [])))))) =
       [''Loading the database with 5 items.'', ''Records that match query 1: '',
        ''Product ID: 82578'', ''Description: Kitchen metal sign'', ''Quantity: 2'']
   \<and> fst (run_query (snd (load_db (initial_world (Some []))))) = None"
proof -
  let ?w = "initial_world (Some [])"
  have p: "plist_obj ?w = plist"
    by (simp add: initial_world_def)
  have l: "load_db ?w =
      (None, (py_print ''Loading the database with 5 items.'' ?w)
               \<lparr> inventory_db := Some (map record_row plist) \<rparr>)"
    by (rule load_db_sample [of _ "[]"]) (simp_all add: initial_world_def)
  then have run: "load_db ?w = (None, snd (load_db ?w))"
    by simp
  have out: "stdout (snd (load_db ?w)) = [''Loading the database with 5 items.'']"
    unfolding l by (simp add: py_print_def initial_world_def)
  from like_query_sample [OF p run] have
    q: "query1 (sqlite3_connect (snd (load_db ?w))) ''sign'' (snd (load_db ?w)) =
           (None, (snd (load_db ?w))\<lparr> stdout := stdout (snd (load_db ?w)) @
              [''Records that match query 1: '',
               ''Product ID: 82578'', ''Description: Kitchen metal sign'', ''Quantity: 2''] \<rparr>)"
    and r: "run_query (snd (load_db ?w)) =
           (None, (snd (load_db ?w))\<lparr> stdout := stdout (snd (load_db ?w)) @
              [''Records that match query 1: '',
               ''Product ID: 82578'', ''Description: Kitchen metal sign'', ''Quantity: 2'',
               ''Records that match query 2: '',
               ''Product ID: 22776'', ''Description: Swallows greeting card'',
               ''Quantity: 4''] \<rparr>)"
    by blast+
  have "stdout (snd (query1 (sqlite3_connect (snd (load_db ?w))) ''sign'' (snd (load_db ?w)))) =
       [''Loading the database with 5 items.'', ''Records that match query 1: '',
        ''Product ID: 82578'', ''Description: Kitchen metal sign'', ''Quantity: 2'']"
    unfolding q by (simp add: out)
  moreover have "fst (run_query (snd (load_db ?w))) = None"
    unfolding r by simp
  ultimately show ?thesis
    using p run by blast
qed

text \<open>
  C5. On the same table query 2 of the query runner (the query for
  \<^verbatim>\<open>productID = "22776"\<close>) selects exactly one row,
  \<^verbatim>\<open>("22776", "Swallows greeting card", 4)\<close>, and prints it, alone and within the
  query runner. The query for any key selects at most one row, on this table and on every
  table whose \<^verbatim>\<open>productID\<close>s are distinct, which is what the primary key keeps.
\<close>

theorem exact_query_sample:
  assumes "plist_obj w = plist" and "load_db w = (None, w')"
  shows "execute_SELECT_productID (sqlite3_connect w') ''22776'' =
           Inr [(Text ''22776'', Text ''Swallows greeting card'', Integer 4)]
       \<and> query2 (sqlite3_connect w') ''22776'' w' =
           (None, w'\<lparr> stdout := stdout w' @
              [''Records that match query 2: '',
               ''Product ID: 22776'', ''Description: Swallows greeting card'',
               ''Quantity: 4''] \<rparr>)
       \<and> run_query w' =
           (None, w'\<lparr> stdout := stdout w' @
              [''Records that match query 1: '',
               ''Product ID: 82578'', ''Description: Kitchen metal sign'', ''Quantity: 2'',
               ''Records that match query 2: '',
               ''Product ID: 22776'', ''Description: Swallows greeting card'',
               ''Quantity: 4''] \<rparr>)
       \<and> (\<exists>rs. execute_SELECT_productID (sqlite3_connect w') key = Inr rs \<and> length rs \<le> 1
             \<and> query2 (sqlite3_connect w') key w' =
                   print_recs rs (py_print ''Records that match query 2: '' w'))
       \<and> (inventory_db v = Some t \<and> distinct (map productID t) \<longrightarrow>
            (\<exists>rs. execute_SELECT_productID (sqlite3_connect v) key = Inr rs \<and> length rs \<le> 1
               \<and> query2 (sqlite3_connect v) key v =
                     print_recs rs (py_print ''Records that match query 2: '' v)))"
proof -
  let ?con = "sqlite3_connect w'"
  let ?r = "(Text ''22776'', Text ''Swallows greeting card'', Integer 4)"
  let ?h = "py_print ''Records that match query 2: '' w'"
  from assms(2) obtain t' where tab: "inventory_db w' = Some t'"
    and t': "t' = map record_row (plist_obj w)" and dist: "distinct (map productID t')"
    by (rule load_db_table_of)
  from tab t' assms(1) have tabs: "inventory_db w' = Some (map record_row plist)"
    by simp
  have "filter (\<lambda>r. sql_eq (productID r) ''22776'') (map record_row plist) = [?r]"
    by (simp add: sample_rows sql_eq_def productID_def)
  with tabs have one: "execute_SELECT_productID ?con ''22776'' = Inr [?r]"
    by (simp add: select_connect)
  have "format_d (quantity ?r) = Inr ''4''"
    by (simp add: format_d_def quantity_def str_int_2_4)
  then have "print_recs [?r] ?h =
      (None, ?h\<lparr> stdout := stdout ?h @
        [''Product ID: '' @ format_s (productID ?r),
         ''Description: '' @ format_s (description ?r),
         ''Quantity: '' @ ''4''] \<rparr>)"
    by (rule print_recs_one)
  with one have q2: "query2 ?con ''22776'' w' =
           (None, w'\<lparr> stdout := stdout w' @
              [''Records that match query 2: '',
               ''Product ID: 22776'', ''Description: Swallows greeting card'',
               ''Quantity: 4''] \<rparr>)"
    by (simp add: query2_def py_print_def format_s_def productID_def description_def)
  from tabs have rq: "run_query w' =
           (None, w'\<lparr> stdout := stdout w' @
              [''Records that match query 1: '',
               ''Product ID: 82578'', ''Description: Kitchen metal sign'', ''Quantity: 2'',
               ''Records that match query 2: '',
               ''Product ID: 22776'', ''Description: Swallows greeting card'',
               ''Quantity: 4''] \<rparr>)"
    by (rule run_query_sample)
  have gen: "\<exists>rs. execute_SELECT_productID (sqlite3_connect x) key = Inr rs \<and> length rs \<le> 1
             \<and> query2 (sqlite3_connect x) key x =
                   print_recs rs (py_print ''Records that match query 2: '' x)"
    if "inventory_db x = Some tx" and "distinct (map productID tx)" for x tx
  proof -
    let ?rs = "filter (\<lambda>r. sql_eq (productID r) key) tx"
    from that(1) have s: "execute_SELECT_productID (sqlite3_connect x) key = Inr ?rs"
      by (rule select_connect)
    moreover from that(2) have "length ?rs \<le> 1"
      by (rule select_at_most_one)
    moreover from s have "query2 (sqlite3_connect x) key x =
        print_recs ?rs (py_print ''Records that match query 2: '' x)"
      by (simp add: query2_def)
    ultimately show ?thesis by blast
  qed
  from one q2 rq gen [OF tab dist] gen [of v t] show ?thesis
    by blast
qed

theorem exact_query_sample_witness:
  "plist_obj (initial_world (Some [])) = plist
   \<and> load_db (initial_world (Some [])) = (None, snd (load_db (initial_world (Some []))))
   \<and> stdout (snd (query2 (sqlite3_connect (snd (load_db (initial_world (Some [])))))
         ''22776'' (snd (load_db (initial_world (Some [])))))) =
       [''Loading the database with 5 items.'', ''Records that match query 2: '',
        ''Product ID: 22776'', ''Description: Swallows greeting card'', ''Quantity: 4'']
   \<and> inventory_db (initial_world (Some [(Text ''a'', Null, Null), (Text ''b'', Null, Null)]))
        = Some [(Text ''a'', Null, Null), (Text ''b'', Null, Null)]
   \<and> distinct (map productID [(Text ''a'', Null, Null), (Text ''b'', Null, Null)])
   \<and> (\<exists>rs. execute_SELECT_productID
         (sqlite3_connect (initial_world (Some [(Text ''a'', Null, Null), (Text ''b'', Null, Null)])))
         ''b'' = Inr rs \<and> length rs \<le> 1)"
proof -
  let ?w = "initial_world (Some [])"
  have p: "plist_obj ?w = plist"
    by (simp add: initial_world_def)
  have l: "load_db ?w =
      (None, (py_print ''Loading the database with 5 items.'' ?w)
               \<lparr> inventory_db := Some (map record_row plist) \<rparr>)"
    by (rule load_db_sample [of _ "[]"]) (simp_all add: initial_world_def)
  then have run: "load_db ?w = (None, snd (load_db ?w))"
    by simp
  have out: "stdout (snd (load_db ?w)) = [''Loading the database with 5 items.'']"
    unfolding l by (simp add: py_print_def initial_world_def)
  have tab: "inventory_db (initial_world (Some [(Text ''a'', Null, Null), (Text ''b'', Null, Null)]))
        = Some [(Text ''a'', Null, Null), (Text ''b'', Null, Null)]"
    by (simp add: initial_world_def)
  have dist: "distinct (map productID [(Text ''a'', Null, Null), (Text ''b'', Null, Null)])"
    by (simp add: productID_def)
  note inst = exact_query_sample [OF p run,
      where v = "initial_world (Some [(Text ''a'', Null, Null), (Text ''b'', Null, Null)])"
        and t = "[(Text ''a'', Null, Null), (Text ''b'', Null, Null)]" and key = "''b''"]
  from inst have
    q: "query2 (sqlite3_connect (snd (load_db ?w))) ''22776'' (snd (load_db ?w)) =
           (None, (snd (load_db ?w))\<lparr> stdout := stdout (snd (load_db ?w)) @
              [''Records that match query 2: '',
               ''Product ID: 22776'', ''Description: Swallows greeting card'',
               ''Quantity: 4''] \<rparr>)"
    by blast
  from inst tab dist have g: "\<exists>rs. execute_SELECT_productID
         (sqlite3_connect (initial_world (Some [(Text ''a'', Null, Null), (Text ''b'', Null, Null)])))
         ''b'' = Inr rs \<and> length rs \<le> 1"
    by blast
  have "stdout (snd (query2 (sqlite3_connect (snd (load_db ?w))) ''22776'' (snd (load_db ?w)))) =
       [''Loading the database with 5 items.'', ''Records that match query 2: '',
        ''Product ID: 22776'', ''Description: Swallows greeting card'', ''Quantity: 4'']"
    unfolding q by (simp add: out)
  with p run tab dist g show ?thesis
    by blast
qed

subsection \<open>Uniqueness of \<^verbatim>\<open>productID\<close>\<close>





subsection \<open>A key that is not there\<close>

text \<open>
  C7. On the table the loader has filled with the sample list, the query for a
  \<^verbatim>\<open>productID\<close> that no Record of the list has returns no row and raises nothing: the
  loop over the result prints nothing after the heading.
\<close>

theorem absent_key_no_rows:
  assumes "plist_obj w = plist" and "load_db w = (None, w')"
    and "key \<notin> set (map fst plist)"
  shows "execute_SELECT_productID (sqlite3_connect w') key = Inr []
       \<and> query2 (sqlite3_connect w') key w' =
           (None, py_print ''Records that match query 2: '' w')"
proof -
  from assms(1,2) have tab: "inventory_db w' = Some (map record_row plist)"
    by (rule load_db_sample_table)
  from assms(3) have "Text key \<notin> set (map productID (map record_row plist))"
    by (auto simp: productID_record_row)
  then have "filter (\<lambda>r. sql_eq (productID r) key) (map record_row plist) = []"
    by (rule select_key_absent)
  with tab have sel: "execute_SELECT_productID (sqlite3_connect w') key = Inr []"
    by (simp add: select_connect)
  then show ?thesis
    by (simp add: query2_def)
qed

theorem absent_key_no_rows_witness:
  "plist_obj (initial_world (Some [])) = plist
   \<and> load_db (initial_world (Some [])) = (None, snd (load_db (initial_world (Some []))))
   \<and> ''22777'' \<notin> set (map fst plist)
   \<and> execute_SELECT_productID (sqlite3_connect (snd (load_db (initial_world (Some [])))))
        ''22777'' = Inr []"
proof -
  have p: "plist_obj (initial_world (Some [])) = plist"
    by (simp add: initial_world_def)
  have run: "load_db (initial_world (Some [])) = (None, snd (load_db (initial_world (Some []))))"
    by (simp add: load_db_sample [of _ "[]"] initial_world_def)
  have absent: "''22777'' \<notin> set (map fst plist)"
    by (simp add: plist_def)
  from absent_key_no_rows [OF p run absent] p run absent show ?thesis by blast
qed

subsection \<open>What a run leaves alone\<close>

text \<open>
  C8. The query runner only reads: whatever the store holds, and whether the run completes
  or ends with an error, the store afterwards is the store before.
\<close>

theorem run_query_read_only:
  "inventory_db (snd (run_query w)) = inventory_db w"
  by (simp add: run_query_frame)

text \<open>
  C10. The list bound to the global \<^verbatim>\<open>plist\<close> is only read: after the loader, after
  the query runner and after a whole run it is the list it was, and so the list of the
  literal in a run of the program.
\<close>

theorem plist_not_modified:
  "plist_obj (snd (load_db w)) = plist_obj w
   \<and> plist_obj (snd (run_query w)) = plist_obj w
   \<and> plist_obj (snd (main w)) = plist_obj w
   \<and> plist_obj (snd (main (initial_world s))) = plist"
proof -
  have m: "plist_obj (snd (main x)) = plist_obj x" for x
  proof -
    let ?x0 = "py_print ''Loading the database...'' x"
    obtain r1 x1 where l: "load_db ?x0 = (r1, x1)"
      by (cases "load_db ?x0")
    have "plist_obj x1 = plist_obj ?x0"
      using load_db_frame [of ?x0] l by simp
    then have x1: "plist_obj x1 = plist_obj x"
      by (simp add: py_print_def)
    show ?thesis
    proof (cases r1)
      case None
      with l have "main x = run_query (py_print ''Querying:'' (py_print ''Done.'' x1))"
        by (simp add: main_def)
      then show ?thesis
        using x1 by (simp add: run_query_frame) (simp add: py_print_def)
    next
      case (Some e)
      with l x1 show ?thesis by (simp add: main_def)
    qed
  qed
  have "plist_obj (initial_world s) = plist"
    by (simp add: initial_world_def)
  with m [of "initial_world s"] m [of w] show ?thesis
    by (simp add: load_db_frame run_query_frame)
qed

subsection \<open>Determinism\<close>

text \<open>
  C9. A run is a function of the initial store alone: the program reads nothing else. Its
  value is given here in full. When the table is missing the run ends with the error after
  two lines of output; when the table exists, whatever it holds, the run completes, the
  store ends with the five sample rows and standard output is the same twelve lines. So
  two runs from the same initial store end with the same store and the same output.
\<close>

theorem main_determined_by_store:
  "main (initial_world s) =
     (case s of
        None \<Rightarrow>
          (Some (OperationalError ''no such table: products''),
           \<lparr> inventory_db = None, plist_obj = plist,
             stdout = [''Loading the database...'', ''Loading the database with 5 items.''] \<rparr>)
      | Some t \<Rightarrow>
          (None,
           \<lparr> inventory_db =
               Some [ (Text ''85123A'', Text ''Blue paisley tissue box'', Integer 8),
                      (Text ''82578'', Text ''Kitchen metal sign'', Integer 2),
                      (Text ''22111'', Text ''Small popcorn holder'', Integer 3),
                      (Text ''23084'', Text ''Rabbit night light'', Integer 8),
                      (Text ''22776'', Text ''Swallows greeting card'', Integer 4) ],
             plist_obj = plist,
             stdout =
               [''Loading the database...'', ''Loading the database with 5 items.'',
                ''Done.'', ''Querying:'',
                ''Records that match query 1: '',
                ''Product ID: 82578'', ''Description: Kitchen metal sign'', ''Quantity: 2'',
                ''Records that match query 2: '',
                ''Product ID: 22776'', ''Description: Swallows greeting card'',
                ''Quantity: 4''] \<rparr>))"
proof (cases s)
  case None
  have "loading_line (initial_world None) = ''Loading the database with 5 items.''"
    by (rule loading_line_plist) (simp add: initial_world_def)
  moreover have "main (initial_world None) =
      (Some no_such_table,
       py_print (loading_line (initial_world None))
         (py_print ''Loading the database...'' (initial_world None)))"
    by (rule main_no_table) (simp add: initial_world_def)
  ultimately show ?thesis
    using None by (simp add: py_print_def initial_world_def no_such_table_def DBTABLE_def)
next
  case (Some t)
  have "plist_obj (initial_world (Some t)) = plist"
    and "inventory_db (initial_world (Some t)) = Some t"
    by (simp_all add: initial_world_def)
  then show ?thesis
    using Some by (simp add: main_table sample_rows) (simp add: initial_world_def)
qed

end
